theory Spec2Isabelle
  imports Complex_Main "HOL-Library.AList"
begin

section \<open>MathGraph: configuration normalisation and the render cycle\<close>

text \<open>
  The component \<^verbatim>\<open>MathGraph\<close> receives a text \<^verbatim>\<open>code\<close>, decodes it with
  \<^verbatim>\<open>JSON.parse\<close>, normalises the decoded value into a plot configuration, fills the
  defaults of every series and hands the result to the plotting engine
  \<^verbatim>\<open>functionPlot\<close>. The decoded value is typed \<^verbatim>\<open>any\<close> and then cast, so every
  field can hold any JSON value at run time: the model works on JavaScript values, with
  the language's own truthiness, \<^verbatim>\<open>||\<close>, property reads and \<^verbatim>\<open>Array.isArray\<close>.
\<close>

subsection \<open>JavaScript values\<close>

text \<open>
  Numbers are exact rationals: the rounding of doubles plays no part in the component,
  which only tests numbers for truthiness and copies them. Strings are character lists.
  An object is the list of its own properties in insertion order; a property is looked
  up by its first entry.
\<close>

datatype jsval =
    JUndefined
  | JNull
  | JBool bool
  | JNum rat
  | JStr string
  | JArr "jsval list"
  | JObj "(string \<times> jsval) list"

text \<open>A thrown value: an \<^verbatim>\<open>Error\<close> (or a subclass such as \<^verbatim>\<open>TypeError\<close>) with its message,
  or anything else.\<close>

datatype thrown = JsError string | NonError

fun truthy :: "jsval \<Rightarrow> bool" where
  "truthy JUndefined = False"
| "truthy JNull = False"
| "truthy (JBool b) = b"
| "truthy (JNum n) = (n \<noteq> 0)"
| "truthy (JStr s) = (s \<noteq> [])"
| "truthy (JArr xs) = True"
| "truthy (JObj kvs) = True"

text \<open>\<^verbatim>\<open>a || b\<close>\<close>

definition js_or :: "jsval \<Rightarrow> jsval \<Rightarrow> jsval" where
  "js_or a b = (if truthy a then a else b)"

fun nullish :: "jsval \<Rightarrow> bool" where
  "nullish JUndefined = True"
| "nullish JNull = True"
| "nullish v = False"

text \<open>\<^verbatim>\<open>Array.isArray(v)\<close>\<close>

fun isArray :: "jsval \<Rightarrow> bool" where
  "isArray (JArr xs) = True"
| "isArray v = False"

text \<open>\<^verbatim>\<open>v.length\<close> of an array.\<close>

fun js_length :: "jsval \<Rightarrow> nat" where
  "js_length (JArr xs) = length xs"
| "js_length v = 0"

text \<open>Decimal rendering of an index, as a template literal or a property key prints it.\<close>

definition digit_char :: "nat \<Rightarrow> char" where
  "digit_char d = ''0123456789'' ! d"

fun string_of_nat :: "nat \<Rightarrow> string" where
  "string_of_nat n =
     (if n < 10 then [digit_char n]
      else string_of_nat (n div 10) @ [digit_char (n mod 10)])"

declare string_of_nat.simps [simp del]

text \<open>
  \<^verbatim>\<open>v.name\<close> on a value that is neither \<^verbatim>\<open>null\<close> nor \<^verbatim>\<open>undefined\<close>, for the
  names the component reads (\<^verbatim>\<open>data\<close>, \<^verbatim>\<open>fn\<close>, \<^verbatim>\<open>fnType\<close>, \<^verbatim>\<open>graphType\<close>,
  \<^verbatim>\<open>color\<close>, \<^verbatim>\<open>label\<close>, \<^verbatim>\<open>vector\<close>, \<^verbatim>\<open>range\<close>, \<^verbatim>\<open>domain\<close>, \<^verbatim>\<open>xAxis\<close>,
  \<^verbatim>\<open>yAxis\<close>, \<^verbatim>\<open>title\<close>, \<^verbatim>\<open>grid\<close>, \<^verbatim>\<open>disableZoom\<close>): none of them is defined on a
  built-in prototype, so a primitive or an array answers \<^verbatim>\<open>undefined\<close>.
\<close>

fun get_prop :: "jsval \<Rightarrow> string \<Rightarrow> jsval" where
  "get_prop (JObj kvs) k = (case map_of kvs k of Some v \<Rightarrow> v | None \<Rightarrow> JUndefined)"
| "get_prop v k = JUndefined"

text \<open>\<^verbatim>\<open>v[i]\<close> on a value that is neither \<^verbatim>\<open>null\<close> nor \<^verbatim>\<open>undefined\<close>.\<close>

fun get_index :: "jsval \<Rightarrow> nat \<Rightarrow> jsval" where
  "get_index (JArr xs) i = (if i < length xs then xs ! i else JUndefined)"
| "get_index (JStr s) i = (if i < length s then JStr [s ! i] else JUndefined)"
| "get_index (JObj kvs) i = get_prop (JObj kvs) (string_of_nat i)"
| "get_index v i = JUndefined"

text \<open>\<^verbatim>\<open>v?.name\<close>\<close>

definition opt_prop :: "jsval \<Rightarrow> string \<Rightarrow> jsval" where
  "opt_prop v k = (if nullish v then JUndefined else get_prop v k)"

text \<open>The own enumerable properties that \<^verbatim>\<open>{...v}\<close> copies.\<close>

fun own_props :: "jsval \<Rightarrow> (string \<times> jsval) list" where
  "own_props (JObj kvs) = kvs"
| "own_props (JArr xs) = map (\<lambda>i. (string_of_nat i, xs ! i)) [0..<length xs]"
| "own_props (JStr s) = map (\<lambda>i. (string_of_nat i, JStr [s ! i])) [0..<length s]"
| "own_props v = []"

text \<open>
  An object literal \<^verbatim>\<open>{...v, k1: e1, ..., kn: en}\<close>: each later property replaces an
  earlier one of the same name in place, or is appended.
\<close>

definition spread_with :: "jsval \<Rightarrow> (string \<times> jsval) list \<Rightarrow> jsval" where
  "spread_with v props = JObj (foldl (\<lambda>kvs (k, e). AList.update k e kvs) (own_props v) props)"

text \<open>The message of the \<^verbatim>\<open>TypeError\<close> of a property read on \<^verbatim>\<open>null\<close> or
  \<^verbatim>\<open>undefined\<close>, in V8's wording; other hosts word it differently.\<close>

definition cannot_read :: "jsval \<Rightarrow> string \<Rightarrow> thrown" where
  "cannot_read v k =
     JsError (''Cannot read properties of '' @ (if v = JNull then ''null'' else ''undefined'')
              @ '' (reading '' @ [CHR 0x27] @ k @ [CHR 0x27] @ '')'')"

subsection \<open>The palette and the series processor\<close>

definition LEGEND_COLORS :: "string list" where
  "LEGEND_COLORS =
     [''#2563eb'', ''#dc2626'', ''#16a34a'', ''#9333ea'', ''#ea580c'', ''#0891b2'', ''#db2777'']"

text \<open>
  The callback of \<^verbatim>\<open>config.data.map((item, index) => ...)\<close>. The first read,
  \<^verbatim>\<open>item.fnType\<close>, throws when the entry is \<^verbatim>\<open>null\<close>; no later read can.
\<close>

definition processItem :: "jsval \<Rightarrow> nat \<Rightarrow> thrown + jsval" where
  "processItem item index =
     (if nullish item then Inl (cannot_read item ''fnType'')
      else
        let fnType = js_or (get_prop item ''fnType'') (JStr ''linear'');
            graphType0 = get_prop item ''graphType'';
            graphType =
              (if \<not> truthy graphType0 then
                 (if fnType = JStr ''implicit'' then JStr ''interval''
                  else if fnType = JStr ''points'' then JStr ''scatter''
                  else JStr ''polyline'')
               else graphType0)
        in Inr (spread_with item
             [(''fnType'', fnType),
              (''graphType'', graphType),
              (''color'',
                 js_or (get_prop item ''color'')
                       (JStr (LEGEND_COLORS ! (index mod length LEGEND_COLORS)))),
              (''label'',
                 js_or (js_or (get_prop item ''label'') (get_prop item ''fn''))
                       (JStr (''Function '' @ string_of_nat (index + 1)))),
              (''vector'',
                 if truthy (get_prop item ''vector'')
                 then JArr [get_index (get_prop item ''vector'') 0,
                            get_index (get_prop item ''vector'') 1]
                 else JUndefined),
              (''range'',
                 if fnType \<noteq> JStr ''implicit'' \<and> isArray (get_prop item ''range'')
                    \<and> js_length (get_prop item ''range'') = 2
                 then JArr [get_index (get_prop item ''range'') 0,
                            get_index (get_prop item ''range'') 1]
                 else JUndefined)]))"

text \<open>\<^verbatim>\<open>Array.prototype.map\<close> over the entries, left to right; a throwing callback
  ends the whole call.\<close>

fun map_items :: "jsval list \<Rightarrow> nat \<Rightarrow> thrown + jsval list" where
  "map_items [] index = Inr []"
| "map_items (item # rest) index =
     (case processItem item index of
        Inl e \<Rightarrow> Inl e
      | Inr out \<Rightarrow>
          (case map_items rest (Suc index) of
             Inl e \<Rightarrow> Inl e
           | Inr outs \<Rightarrow> Inr (out # outs)))"

subsection \<open>Normalisation of the decoded value\<close>

text \<open>
  The block under \<^verbatim>\<open>// Normalization\<close>. Reading \<^verbatim>\<open>parsed.data\<close> throws when the
  decoded value is \<^verbatim>\<open>null\<close>. A value with an array \<^verbatim>\<open>data\<close> is the configuration
  itself; anything else is the legacy shorthand, from which a configuration with one
  series is built.
\<close>

definition normalize :: "jsval \<Rightarrow> thrown + jsval" where
  "normalize parsed =
     (if nullish parsed then Inl (cannot_read parsed ''data'')
      else if isArray (get_prop parsed ''data'') then Inr parsed
      else Inr (JObj
        [(''data'', JArr [JObj
            [(''fn'', js_or (get_prop parsed ''fn'') (JStr ''x'')),
             (''color'', JStr (LEGEND_COLORS ! 0)),
             (''graphType'', JStr ''polyline''),
             (''label'', get_prop parsed ''fn''),
             (''range'', get_prop parsed ''range'')]]),
         (''xAxis'', JObj [(''domain'',
            js_or (get_prop parsed ''domain'') (JArr [JNum (- 10), JNum 10]))]),
         (''yAxis'', JObj [(''domain'', JArr [JNum (- 10), JNum 10])]),
         (''grid'', JBool True)]))"

text \<open>\<^verbatim>\<open>config.data.map(...)\<close>; after normalisation \<^verbatim>\<open>config.data\<close> is an array, any
  other value has no \<^verbatim>\<open>map\<close> to call.\<close>

definition processedData :: "jsval \<Rightarrow> thrown + jsval list" where
  "processedData config =
     (case get_prop config ''data'' of
        JArr items \<Rightarrow> map_items items 0
      | _ \<Rightarrow> Inl (JsError ''config.data.map is not a function''))"

subsection \<open>The component and its render pass\<close>

text \<open>
  The argument of the call of \<^verbatim>\<open>functionPlot\<close>, without the constant \<^verbatim>\<open>tip\<close> and the
  target element (the call always draws into \<^verbatim>\<open>rootEl\<close>).
\<close>

record draw_call =
  width :: rat
  height :: rat
  title :: jsval
  grid :: bool
  disableZoom :: jsval
  xDomain :: jsval
  xLabel :: jsval
  yDomain :: jsval
  yLabel :: jsval
  data :: "jsval list"

text \<open>What the element \<^verbatim>\<open>rootEl\<close> holds: nothing after \<^verbatim>\<open>innerHTML = ""\<close>, or what the
  engine left there when it was called.\<close>

datatype surface = Blank | Painted draw_call

text \<open>
  The state of a mounted component: the prop \<^verbatim>\<open>code\<close>, the three state variables, the
  refs \<^verbatim>\<open>rootEl\<close> (\<open>None\<close> while the ref is \<^verbatim>\<open>null\<close>) and \<^verbatim>\<open>chartInstance\<close>, the
  animation-frame callback that is scheduled and not yet run (with the \<^verbatim>\<open>code\<close> and
  \<^verbatim>\<open>dimensions\<close> its closure captured), and the list of the calls made to the engine
  so far, oldest first.
\<close>

record component =
  code :: string
  dimensions :: "rat \<times> rat"
  error :: "string option"
  legendItems :: "jsval list"
  rootEl :: "surface option"
  chartInstance :: "draw_call option"
  rafPending :: "(string \<times> rat \<times> rat) option"
  engineCalls :: "draw_call list"

text \<open>
  The body of the \<^verbatim>\<open>try\<close> of \<^verbatim>\<open>drawGraph\<close>: the value thrown, if any, and the state
  reached. \<open>JSON_parse\<close> is the host's decoder (\<open>None\<close> when it throws) and
  \<open>functionPlot\<close> the engine (\<open>Some e\<close> when it throws \<open>e\<close>); both are parameters.
\<close>

definition drawGraph_try ::
  "(string \<Rightarrow> jsval option) \<Rightarrow> (draw_call \<Rightarrow> thrown option) \<Rightarrow>
   string \<Rightarrow> rat \<times> rat \<Rightarrow> component \<Rightarrow> thrown option \<times> component"
where
  "drawGraph_try JSON_parse functionPlot code' dims s =
     (case JSON_parse code' of
        None \<Rightarrow> (Some (JsError ''Failed to parse diagram''), s)
      | Some parsed \<Rightarrow>
     (case normalize parsed of
        Inl e \<Rightarrow> (Some e, s)
      | Inr config \<Rightarrow>
     (let s1 = s\<lparr>rootEl := map_option (\<lambda>_. Blank) (rootEl s)\<rparr> in
      case processedData config of
        Inl e \<Rightarrow> (Some e, s1)
      | Inr processed \<Rightarrow>
     (let s2 = s1\<lparr>legendItems := processed\<rparr>;
          xDom = js_or (opt_prop (get_prop config ''xAxis'') ''domain'')
                       (JArr [JNum (- 10), JNum 10]);
          yDom = js_or (opt_prop (get_prop config ''yAxis'') ''domain'')
                       (JArr [JNum (- 10), JNum 10])
      in if rootEl s2 = None then (None, s2)
         else
           let call = \<lparr>width = fst dims, height = snd dims,
                        title = get_prop config ''title'',
                        grid = (get_prop config ''grid'' \<noteq> JBool False),
                        disableZoom = get_prop config ''disableZoom'',
                        xDomain = xDom,
                        xLabel = js_or (opt_prop (get_prop config ''xAxis'') ''label'') (JStr ''x''),
                        yDomain = yDom,
                        yLabel = js_or (opt_prop (get_prop config ''yAxis'') ''label'') (JStr ''y''),
                        data = processed\<rparr>;
               s3 = s2\<lparr>rootEl := Some (Painted call), engineCalls := engineCalls s2 @ [call]\<rparr>
           in case functionPlot call of
                Some e \<Rightarrow> (Some e, s3)
              | None \<Rightarrow> (None, s3\<lparr>chartInstance := Some call\<rparr>)))))"

text \<open>\<^verbatim>\<open>drawGraph\<close>: it contains no \<^verbatim>\<open>await\<close>, so it runs to its end when called.\<close>

definition drawGraph ::
  "(string \<Rightarrow> jsval option) \<Rightarrow> (draw_call \<Rightarrow> thrown option) \<Rightarrow>
   string \<Rightarrow> rat \<times> rat \<Rightarrow> component \<Rightarrow> component"
where
  "drawGraph JSON_parse functionPlot code' dims s =
     (case drawGraph_try JSON_parse functionPlot code' dims (s\<lparr>error := None\<rparr>) of
        (None, s') \<Rightarrow> s'
      | (Some e, s') \<Rightarrow>
          s'\<lparr>error := Some (case e of JsError msg \<Rightarrow> msg | NonError \<Rightarrow> ''Invalid graph data.'')\<rparr>)"

text \<open>
  The second effect, with the dependencies \<^verbatim>\<open>[code, dimensions]\<close>: its cleanup cancels
  the frame callback of the previous run, then it schedules \<^verbatim>\<open>drawGraph\<close> unless the
  element is missing or a dimension is zero.
\<close>

definition drawEffect :: "component \<Rightarrow> component" where
  "drawEffect s =
     (if rootEl s = None \<or> fst (dimensions s) = 0 \<or> snd (dimensions s) = 0
      then s\<lparr>rafPending := None\<rparr>
      else s\<lparr>rafPending := Some (code s, dimensions s)\<rparr>)"

text \<open>The callback of the \<^verbatim>\<open>ResizeObserver\<close> over the content rectangles of its
  entries; the flag tells whether \<^verbatim>\<open>setDimensions\<close> was called.\<close>

fun observe :: "(rat \<times> rat) list \<Rightarrow> bool \<times> rat \<times> rat \<Rightarrow> bool \<times> rat \<times> rat" where
  "observe [] acc = acc"
| "observe ((w, h) # entries) acc =
     observe entries (if w > 0 \<and> h > 0 then (True, w, h) else acc)"

text \<open>
  What can happen to a mounted component: the observer reports, the parent passes a
  new \<^verbatim>\<open>code\<close>, or the browser runs the frame callbacks. \<^verbatim>\<open>setDimensions\<close> is given a
  new object on each call, so the effect runs again after every accepted report; a
  \<^verbatim>\<open>code\<close> equal to the previous one leaves the dependencies unchanged.
\<close>

datatype event = Resize "(rat \<times> rat) list" | CodeChange string | AnimationFrame

definition step ::
  "(string \<Rightarrow> jsval option) \<Rightarrow> (draw_call \<Rightarrow> thrown option) \<Rightarrow> event \<Rightarrow> component \<Rightarrow> component"
where
  "step JSON_parse functionPlot ev s =
     (case ev of
        Resize entries \<Rightarrow>
          (case observe entries (False, dimensions s) of
             (True, d) \<Rightarrow> drawEffect (s\<lparr>dimensions := d\<rparr>)
           | (False, d) \<Rightarrow> s)
      | CodeChange c \<Rightarrow> (if c = code s then s else drawEffect (s\<lparr>code := c\<rparr>))
      | AnimationFrame \<Rightarrow>
          (case rafPending s of
             None \<Rightarrow> s
           | Some (c, d) \<Rightarrow> drawGraph JSON_parse functionPlot c d (s\<lparr>rafPending := None\<rparr>)))"

text \<open>The component after mounting with a given \<^verbatim>\<open>code\<close>: the initial state values, with
  both effects run once.\<close>

definition mount :: "string \<Rightarrow> component" where
  "mount c = drawEffect
     \<lparr>code = c, dimensions = (0, 0), error = None, legendItems = [],
      rootEl = Some Blank, chartInstance = None, rafPending = None, engineCalls = []\<rparr>"

fun run ::
  "(string \<Rightarrow> jsval option) \<Rightarrow> (draw_call \<Rightarrow> thrown option) \<Rightarrow> event list \<Rightarrow> component \<Rightarrow> component"
where
  "run JSON_parse functionPlot [] s = s"
| "run JSON_parse functionPlot (ev # evs) s =
     run JSON_parse functionPlot evs (step JSON_parse functionPlot ev s)"

text \<open>
  What the component shows. \<^verbatim>\<open>error && ...\<close> and \<^verbatim>\<open>!error\<close> test the message for
  truthiness, so an empty message counts as no error.
\<close>

definition errorShown :: "component \<Rightarrow> string option" where
  "errorShown s = (case error s of Some msg \<Rightarrow> (if msg = [] then None else Some msg) | None \<Rightarrow> None)"

definition legendShown :: "component \<Rightarrow> (jsval \<times> jsval) list" where
  "legendShown s =
     (if length (legendItems s) > 0 \<and> errorShown s = None
      then map (\<lambda>item. (get_prop item ''color'', get_prop item ''label'')) (legendItems s)
      else [])"

subsection \<open>Vocabulary of the properties\<close>

text \<open>The values that the type of \<^verbatim>\<open>fnType\<close> in \<^verbatim>\<open>FunctionItem\<close> admits.\<close>

definition fnTypes :: "string list" where
  "fnTypes = [''linear'', ''implicit'', ''parametric'', ''points'', ''vector'']"


definition nonempty_string :: "jsval \<Rightarrow> bool" where
  "nonempty_string v = (case v of JStr s \<Rightarrow> s \<noteq> [] | _ \<Rightarrow> False)"

text \<open>A field typed \<^verbatim>\<open>string | undefined\<close> that holds what its type says.\<close>

definition string_or_missing :: "jsval \<Rightarrow> bool" where
  "string_or_missing v = (case v of JUndefined \<Rightarrow> True | JStr s \<Rightarrow> True | _ \<Rightarrow> False)"




subsection \<open>Properties of the series processor\<close>

lemma processItem_Inr_iff: "(\<exists>out. processItem item i = Inr out) \<longleftrightarrow> \<not> nullish item"
  by (simp add: processItem_def Let_def)

lemma processItem_fnType:
  "processItem item i = Inr out \<Longrightarrow>
   get_prop out ''fnType'' = js_or (get_prop item ''fnType'') (JStr ''linear'')"
  by (auto simp add: processItem_def Let_def spread_with_def update_conv' split: if_splits)

lemma processItem_graphType:
  "processItem item i = Inr out \<Longrightarrow>
   get_prop out ''graphType'' =
     (if truthy (get_prop item ''graphType'') then get_prop item ''graphType''
      else if js_or (get_prop item ''fnType'') (JStr ''linear'') = JStr ''implicit''
        then JStr ''interval''
      else if js_or (get_prop item ''fnType'') (JStr ''linear'') = JStr ''points''
        then JStr ''scatter''
      else JStr ''polyline'')"
  by (auto simp add: processItem_def Let_def spread_with_def update_conv' split: if_splits)

lemma processItem_color:
  "processItem item i = Inr out \<Longrightarrow>
   get_prop out ''color'' =
     js_or (get_prop item ''color'') (JStr (LEGEND_COLORS ! (i mod length LEGEND_COLORS)))"
  by (auto simp add: processItem_def Let_def spread_with_def update_conv' split: if_splits)

lemma processItem_label:
  "processItem item i = Inr out \<Longrightarrow>
   get_prop out ''label'' =
     js_or (js_or (get_prop item ''label'') (get_prop item ''fn''))
           (JStr (''Function '' @ string_of_nat (i + 1)))"
  by (auto simp add: processItem_def Let_def spread_with_def update_conv' split: if_splits)

lemma processItem_vector:
  "processItem item i = Inr out \<Longrightarrow>
   get_prop out ''vector'' =
     (if truthy (get_prop item ''vector'')
      then JArr [get_index (get_prop item ''vector'') 0, get_index (get_prop item ''vector'') 1]
      else JUndefined)"
  by (auto simp add: processItem_def Let_def spread_with_def update_conv' split: if_splits)

lemma processItem_range:
  "processItem item i = Inr out \<Longrightarrow>
   get_prop out ''range'' =
     (if js_or (get_prop item ''fnType'') (JStr ''linear'') \<noteq> JStr ''implicit''
         \<and> isArray (get_prop item ''range'') \<and> js_length (get_prop item ''range'') = 2
      then JArr [get_index (get_prop item ''range'') 0, get_index (get_prop item ''range'') 1]
      else JUndefined)"
  by (auto simp add: processItem_def Let_def spread_with_def update_conv' split: if_splits)

lemma map_items_length: "map_items items k = Inr outs \<Longrightarrow> length outs = length items"
  by (induction items arbitrary: k outs) (auto split: sum.splits)

lemma map_items_nth:
  "map_items items k = Inr outs \<Longrightarrow> i < length items \<Longrightarrow>
   processItem (items ! i) (k + i) = Inr (outs ! i)"
proof (induction items arbitrary: k outs i)
  case Nil
  then show ?case by simp
next
  case (Cons item rest)
  from Cons.prems(1) obtain out outs' where
    out: "processItem item k = Inr out" and rest: "map_items rest (Suc k) = Inr outs'"
    and outs: "outs = out # outs'"
    by (auto split: sum.splits)
  show ?case
  proof (cases i)
    case 0
    with out outs show ?thesis by simp
  next
    case (Suc j)
    with Cons.prems(2) have "j < length rest" by simp
    from Cons.IH [OF rest this] Suc outs show ?thesis by simp
  qed
qed

lemma map_items_Inr_iff:
  "(\<exists>outs. map_items items k = Inr outs) \<longleftrightarrow> (\<forall>item \<in> set items. \<not> nullish item)"
proof (induction items arbitrary: k)
  case Nil
  then show ?case by simp
next
  case (Cons item rest)
  show ?case
  proof (cases "nullish item")
    case True
    then show ?thesis by (simp add: processItem_def)
  next
    case False
    then obtain out where "processItem item k = Inr out"
      using processItem_Inr_iff by blast
    with False Cons.IH [of "Suc k"] show ?thesis
      by (auto split: sum.splits)
  qed
qed

lemma length_LEGEND_COLORS: "length LEGEND_COLORS = 7"
  by (simp add: LEGEND_COLORS_def)

lemma LEGEND_COLORS_nonempty: "i < 7 \<Longrightarrow> LEGEND_COLORS ! i \<noteq> []"
  unfolding LEGEND_COLORS_def
  by (auto simp add: less_Suc_eq numeral_nat)

subsection \<open>Properties of the render pass and of the effects\<close>

lemma drawGraph_parse_failure:
  "JSON_parse c = None \<Longrightarrow>
   drawGraph JSON_parse functionPlot c d s = s\<lparr>error := Some ''Failed to parse diagram''\<rparr>"
  by (simp add: drawGraph_def drawGraph_try_def)

lemma drawGraph_normalize_failure:
  "JSON_parse c = Some parsed \<Longrightarrow> normalize parsed = Inl (JsError msg) \<Longrightarrow>
   drawGraph JSON_parse functionPlot c d s = s\<lparr>error := Some msg\<rparr>"
  by (simp add: drawGraph_def drawGraph_try_def)













section \<open>The claims\<close>

subsection \<open>C1: the sampling range\<close>




subsection \<open>C2: the default kind\<close>

text \<open>
  Claim C2 says that \<^verbatim>\<open>fnType\<close> becomes \<^verbatim>\<open>linear\<close> when it is missing and also when
  it holds an unrecognised value, so that every processed series has one of the five
  kinds. The processor writes \<^verbatim>\<open>item.fnType || "linear"\<close>: the entry
  \<^verbatim>\<open>{"fnType":"cubic"}\<close> keeps the kind \<^verbatim>\<open>cubic\<close>.
\<close>

theorem fnType_unrecognized_counterexample:
  "processItem (JObj [(''fnType'', JStr ''cubic'')]) 0 =
     Inr (JObj [(''fnType'', JStr ''cubic''), (''graphType'', JStr ''polyline''),
                (''color'', JStr ''#2563eb''), (''label'', JStr ''Function 1''),
                (''vector'', JUndefined), (''range'', JUndefined)])
   \<and> ''cubic'' \<notin> set fnTypes"
  by (simp add: processItem_def spread_with_def js_or_def LEGEND_COLORS_def fnTypes_def
      string_of_nat.simps digit_char_def)

text \<open>
  Claim C2, amended: the processed \<^verbatim>\<open>fnType\<close> is \<^verbatim>\<open>linear\<close> when the input's is
  missing or falsy, and the input's own value otherwise, recognised or not; so the
  processed kind is one of the five whenever the input's kind is missing, falsy or one
  of the five.
\<close>

theorem fnType_default_when_falsy:
  assumes "processItem item index = Inr out"
  shows "get_prop out ''fnType'' =
           (if truthy (get_prop item ''fnType'') then get_prop item ''fnType''
            else JStr ''linear'')
       \<and> (get_prop item ''fnType'' = JUndefined \<longrightarrow> get_prop out ''fnType'' = JStr ''linear'')
       \<and> (\<not> truthy (get_prop item ''fnType'') \<or> get_prop item ''fnType'' \<in> JStr ` set fnTypes
            \<longrightarrow> get_prop out ''fnType'' \<in> JStr ` set fnTypes)"
  using processItem_fnType [OF assms]
  by (auto simp add: js_or_def fnTypes_def)

theorem fnType_default_when_falsy_witness:
  "processItem (JObj [(''fn'', JStr ''x'')]) 3 =
     Inr (JObj [(''fn'', JStr ''x''), (''fnType'', JStr ''linear''),
                (''graphType'', JStr ''polyline''), (''color'', JStr ''#9333ea''),
                (''label'', JStr ''x''), (''vector'', JUndefined), (''range'', JUndefined)])
   \<and> get_prop (JObj [(''fn'', JStr ''x''), (''fnType'', JStr ''linear''),
                (''graphType'', JStr ''polyline''), (''color'', JStr ''#9333ea''),
                (''label'', JStr ''x''), (''vector'', JUndefined), (''range'', JUndefined)])
        ''fnType'' \<in> JStr ` set fnTypes"
proof -
  have h: "processItem (JObj [(''fn'', JStr ''x'')]) 3 =
     Inr (JObj [(''fn'', JStr ''x''), (''fnType'', JStr ''linear''),
                (''graphType'', JStr ''polyline''), (''color'', JStr ''#9333ea''),
                (''label'', JStr ''x''), (''vector'', JUndefined), (''range'', JUndefined)])"
    by (simp add: processItem_def spread_with_def js_or_def LEGEND_COLORS_def)
  from fnType_default_when_falsy [OF h] h show ?thesis
    by simp
qed

subsection \<open>C3: the vector\<close>

text \<open>
  Claim C3 says that a \<^verbatim>\<open>vector\<close> is copied into a fresh pair, that extra elements are
  discarded and that an input with fewer than two elements is treated as absent. The
  processor writes \<^verbatim>\<open>item.vector ? [item.vector[0], item.vector[1]] : undefined\<close>,
  without a test of the length: the entry \<^verbatim>\<open>{"vector":[1]}\<close> gets the vector
  \<^verbatim>\<open>[1, undefined]\<close>, not an absent one.
\<close>

theorem vector_short_counterexample:
  "processItem (JObj [(''vector'', JArr [JNum 1])]) 0 =
     Inr (JObj [(''vector'', JArr [JNum 1, JUndefined]), (''fnType'', JStr ''linear''),
                (''graphType'', JStr ''polyline''), (''color'', JStr ''#2563eb''),
                (''label'', JStr ''Function 1''), (''range'', JUndefined)])"
  by (simp add: processItem_def spread_with_def js_or_def LEGEND_COLORS_def
      string_of_nat.simps digit_char_def)

text \<open>
  Claim C3, amended: a \<^verbatim>\<open>vector\<close> with at least two elements is replaced by a new
  array of its first two elements, the others being discarded; any other truthy
  \<^verbatim>\<open>vector\<close> is replaced by the new array of what its indices 0 and 1 hold,
  \<^verbatim>\<open>undefined\<close> where it has no such element; the processed \<^verbatim>\<open>vector\<close> is
  \<^verbatim>\<open>undefined\<close> exactly when the input's is missing or falsy. The new array is built
  by an array literal; values here carry no identity, so that it is distinct from the
  caller's array is not part of the statement.
\<close>

theorem vector_first_two_elements:
  assumes "processItem item index = Inr out"
  shows "(\<forall>x y rest. get_prop item ''vector'' = JArr (x # y # rest)
            \<longrightarrow> get_prop out ''vector'' = JArr [x, y])
       \<and> (truthy (get_prop item ''vector'')
            \<longrightarrow> get_prop out ''vector'' =
                 JArr [get_index (get_prop item ''vector'') 0,
                       get_index (get_prop item ''vector'') 1])
       \<and> (\<not> truthy (get_prop item ''vector'') \<longleftrightarrow> get_prop out ''vector'' = JUndefined)"
  using processItem_vector [OF assms]
  by auto

theorem vector_first_two_elements_witness:
  "processItem (JObj [(''fnType'', JStr ''vector''), (''vector'', JArr [JNum 1, JNum 2, JNum 3])]) 0 =
     Inr (JObj [(''fnType'', JStr ''vector''), (''vector'', JArr [JNum 1, JNum 2]),
                (''graphType'', JStr ''polyline''), (''color'', JStr ''#2563eb''),
                (''label'', JStr ''Function 1''), (''range'', JUndefined)])
   \<and> get_prop (JObj [(''fnType'', JStr ''vector''), (''vector'', JArr [JNum 1, JNum 2]),
                (''graphType'', JStr ''polyline''), (''color'', JStr ''#2563eb''),
                (''label'', JStr ''Function 1''), (''range'', JUndefined)]) ''vector''
       = JArr [JNum 1, JNum 2]"
proof -
  have h: "processItem (JObj [(''fnType'', JStr ''vector''), (''vector'', JArr [JNum 1, JNum 2, JNum 3])]) 0 =
     Inr (JObj [(''fnType'', JStr ''vector''), (''vector'', JArr [JNum 1, JNum 2]),
                (''graphType'', JStr ''polyline''), (''color'', JStr ''#2563eb''),
                (''label'', JStr ''Function 1''), (''range'', JUndefined)])"
    by (simp add: processItem_def spread_with_def js_or_def LEGEND_COLORS_def
        string_of_nat.simps digit_char_def)
  from vector_first_two_elements [OF h] h show ?thesis
    by simp
qed

subsection \<open>C4: text that does not decode\<close>

text \<open>
  Claim C4 says that a text that fails to decode ends the render pass in the failed
  state with a parse-error message, with nothing rendered and the legend state
  cleared. The \<^verbatim>\<open>catch\<close> only calls \<^verbatim>\<open>setError\<close>; \<^verbatim>\<open>setLegendItems\<close> is not
  called on this path. After a successful draw of the text \<^verbatim>\<open>1\<close> (a legacy input
  without \<^verbatim>\<open>fn\<close>, decoded here by a decoder that knows this one text), a change of the
  text to \<^verbatim>\<open>not json\<close> leaves the legend state holding the series of the earlier
  draw.
\<close>

theorem parse_failure_keeps_legend_counterexample:
  "legendItems (run [''1'' \<mapsto> JNum 1] Map.empty
      [Resize [(300, 200)], AnimationFrame, CodeChange ''not json'', AnimationFrame] (mount ''1''))
     = [JObj [(''fn'', JStr ''x''), (''color'', JStr ''#2563eb''), (''graphType'', JStr ''polyline''),
              (''label'', JStr ''x''), (''range'', JUndefined), (''fnType'', JStr ''linear''),
              (''vector'', JUndefined)]]
   \<and> error (run [''1'' \<mapsto> JNum 1] Map.empty
      [Resize [(300, 200)], AnimationFrame, CodeChange ''not json'', AnimationFrame] (mount ''1''))
     = Some ''Failed to parse diagram''"
  by (simp add: mount_def step_def drawEffect_def drawGraph_def drawGraph_try_def normalize_def
      processedData_def processItem_def spread_with_def js_or_def opt_prop_def LEGEND_COLORS_def
      Let_def)

text \<open>
  Claim C4, amended: for every text that fails to decode, the render pass ends with the
  error \<^verbatim>\<open>Failed to parse diagram\<close>, makes no call to the engine and leaves the plot
  surface and the legend state as they were (so the legend state is empty when it was
  empty before, as on a first render); the legend that is shown is empty, because it is
  shown only while no error is set.
\<close>

theorem parse_failure_fails_render:
  assumes "JSON_parse c = None"
    and "s' = drawGraph JSON_parse functionPlot c d s"
  shows "error s' = Some ''Failed to parse diagram''
       \<and> errorShown s' = Some ''Failed to parse diagram''
       \<and> engineCalls s' = engineCalls s
       \<and> rootEl s' = rootEl s
       \<and> legendItems s' = legendItems s
       \<and> legendShown s' = []"
  using assms
  by (simp add: drawGraph_parse_failure errorShown_def legendShown_def)

theorem parse_failure_fails_render_witness:
  "[''1'' \<mapsto> JNum 1] ''not json'' = None
   \<and> error (drawGraph [''1'' \<mapsto> JNum 1] Map.empty ''not json'' (300, 200) (mount ''not json''))
       = Some ''Failed to parse diagram''
   \<and> legendItems (drawGraph [''1'' \<mapsto> JNum 1] Map.empty ''not json'' (300, 200) (mount ''not json''))
       = []
   \<and> engineCalls (drawGraph [''1'' \<mapsto> JNum 1] Map.empty ''not json'' (300, 200) (mount ''not json''))
       = []"
proof -
  have h: "[''1'' \<mapsto> JNum 1] ''not json'' = None"
    by simp
  from parse_failure_fails_render
    [where JSON_parse = "[''1'' \<mapsto> JNum 1]" and c = "''not json''" and functionPlot = Map.empty
       and d = "(300, 200)" and s = "mount ''not json''", OF h refl] h
  show ?thesis
    by (simp add: mount_def drawEffect_def)
qed

subsection \<open>C5: implicit series\<close>

text \<open>
  Claim C5: for every entry whose kind is \<^verbatim>\<open>implicit\<close> the processed series keeps
  that kind and has no \<^verbatim>\<open>range\<close>, whatever the input supplied; and its
  \<^verbatim>\<open>graphType\<close> is \<^verbatim>\<open>interval\<close> when the entry sets none (or a falsy one).
\<close>

theorem implicit_series_has_no_range:
  assumes "get_prop item ''fnType'' = JStr ''implicit''"
  shows "\<exists>out. processItem item index = Inr out
           \<and> get_prop out ''fnType'' = JStr ''implicit''
           \<and> get_prop out ''range'' = JUndefined
           \<and> (\<not> truthy (get_prop item ''graphType'')
                \<longrightarrow> get_prop out ''graphType'' = JStr ''interval'')"
proof -
  from assms have "\<not> nullish item"
    by (cases item) auto
  then obtain out where out: "processItem item index = Inr out"
    using processItem_Inr_iff by blast
  from assms have kind: "js_or (get_prop item ''fnType'') (JStr ''linear'') = JStr ''implicit''"
    by (simp add: js_or_def)
  have "get_prop out ''fnType'' = JStr ''implicit''"
    using processItem_fnType [OF out] kind by simp
  moreover have "get_prop out ''range'' = JUndefined"
    using processItem_range [OF out] kind by simp
  moreover have "\<not> truthy (get_prop item ''graphType'')
      \<longrightarrow> get_prop out ''graphType'' = JStr ''interval''"
    using processItem_graphType [OF out] kind by simp
  ultimately show ?thesis
    using out by blast
qed

theorem implicit_series_has_no_range_witness:
  "get_prop (JObj [(''fnType'', JStr ''implicit''), (''fn'', JStr ''x^2+y^2-4''),
                   (''range'', JArr [JNum 0, JNum 5])]) ''fnType'' = JStr ''implicit''
   \<and> processItem (JObj [(''fnType'', JStr ''implicit''), (''fn'', JStr ''x^2+y^2-4''),
                   (''range'', JArr [JNum 0, JNum 5])]) 0 =
       Inr (JObj [(''fnType'', JStr ''implicit''), (''fn'', JStr ''x^2+y^2-4''),
                  (''range'', JUndefined), (''graphType'', JStr ''interval''),
                  (''color'', JStr ''#2563eb''), (''label'', JStr ''x^2+y^2-4''),
                  (''vector'', JUndefined)])"
proof -
  have h: "get_prop (JObj [(''fnType'', JStr ''implicit''), (''fn'', JStr ''x^2+y^2-4''),
                   (''range'', JArr [JNum 0, JNum 5])]) ''fnType'' = JStr ''implicit''"
    by simp
  from implicit_series_has_no_range [OF h, of 0] show ?thesis
    by (simp add: processItem_def spread_with_def js_or_def LEGEND_COLORS_def)
qed

subsection \<open>C6: colours by position\<close>

text \<open>
  Claim C6: the palette has seven entries; every list of entries without a \<^verbatim>\<open>null\<close>
  is processed, to a list of the same length, and each entry at an index \<open>i\<close> that
  gives no colour (or a falsy one) gets the palette's entry \<open>i mod 7\<close>. Hence two
  processed lists carry the same colour at every index where neither gives one.
\<close>

theorem color_from_palette_by_index:
  assumes "\<forall>item \<in> set items. \<not> nullish item"
  shows "length LEGEND_COLORS = 7
       \<and> (\<exists>outs. map_items items 0 = Inr outs \<and> length outs = length items
            \<and> (\<forall>i < length items. \<not> truthy (get_prop (items ! i) ''color'')
                  \<longrightarrow> get_prop (outs ! i) ''color'' = JStr (LEGEND_COLORS ! (i mod 7)))
            \<and> (\<forall>items'. (\<forall>item \<in> set items'. \<not> nullish item)
                  \<longrightarrow> (\<exists>outs'. map_items items' 0 = Inr outs' \<and> length outs' = length items'
                        \<and> (\<forall>i. i < length items \<and> i < length items'
                                \<and> \<not> truthy (get_prop (items ! i) ''color'')
                                \<and> \<not> truthy (get_prop (items' ! i) ''color'')
                              \<longrightarrow> get_prop (outs' ! i) ''color'' = get_prop (outs ! i) ''color''))))"
proof -
  have run: "\<exists>ys. map_items xs 0 = Inr ys \<and> length ys = length xs
       \<and> (\<forall>i < length xs. \<not> truthy (get_prop (xs ! i) ''color'')
             \<longrightarrow> get_prop (ys ! i) ''color'' = JStr (LEGEND_COLORS ! (i mod 7)))"
    if ok: "\<forall>item \<in> set xs. \<not> nullish item" for xs
  proof -
    from ok obtain ys where ys: "map_items xs 0 = Inr ys"
      using map_items_Inr_iff [of xs 0] by blast
    have "get_prop (ys ! i) ''color'' = JStr (LEGEND_COLORS ! (i mod 7))"
      if "i < length xs" "\<not> truthy (get_prop (xs ! i) ''color'')" for i
    proof -
      from map_items_nth [OF ys that(1)] have "processItem (xs ! i) i = Inr (ys ! i)"
        by simp
      from processItem_color [OF this] that(2) show ?thesis
        by (simp add: js_or_def length_LEGEND_COLORS)
    qed
    with ys map_items_length [OF ys] show ?thesis
      by blast
  qed
  from run [OF assms] obtain outs where outs: "map_items items 0 = Inr outs"
    "length outs = length items"
    "\<forall>i < length items. \<not> truthy (get_prop (items ! i) ''color'')
        \<longrightarrow> get_prop (outs ! i) ''color'' = JStr (LEGEND_COLORS ! (i mod 7))"
    by blast
  have "\<exists>outs'. map_items items' 0 = Inr outs' \<and> length outs' = length items'
          \<and> (\<forall>i. i < length items \<and> i < length items'
                  \<and> \<not> truthy (get_prop (items ! i) ''color'')
                  \<and> \<not> truthy (get_prop (items' ! i) ''color'')
                \<longrightarrow> get_prop (outs' ! i) ''color'' = get_prop (outs ! i) ''color'')"
    if "\<forall>item \<in> set items'. \<not> nullish item" for items'
  proof -
    from run [OF that] obtain outs' where outs': "map_items items' 0 = Inr outs'"
      "length outs' = length items'"
      "\<forall>i < length items'. \<not> truthy (get_prop (items' ! i) ''color'')
          \<longrightarrow> get_prop (outs' ! i) ''color'' = JStr (LEGEND_COLORS ! (i mod 7))"
      by blast
    from outs(3) outs'(3)
    have "\<forall>i. i < length items \<and> i < length items'
                  \<and> \<not> truthy (get_prop (items ! i) ''color'')
                  \<and> \<not> truthy (get_prop (items' ! i) ''color'')
                \<longrightarrow> get_prop (outs' ! i) ''color'' = get_prop (outs ! i) ''color''"
      by simp
    with outs'(1,2) show ?thesis
      by blast
  qed
  with outs show ?thesis
    by (simp add: length_LEGEND_COLORS)
qed

theorem color_from_palette_by_index_witness:
  "map_items [JObj [(''fn'', JStr ''sin(x)''), (''color'', JStr ''#000'')],
              JObj [(''fn'', JStr ''cos(x)'')]] 0 =
     Inr [JObj [(''fn'', JStr ''sin(x)''), (''color'', JStr ''#000''),
                (''fnType'', JStr ''linear''), (''graphType'', JStr ''polyline''),
                (''label'', JStr ''sin(x)''), (''vector'', JUndefined), (''range'', JUndefined)],
          JObj [(''fn'', JStr ''cos(x)''), (''fnType'', JStr ''linear''),
                (''graphType'', JStr ''polyline''), (''color'', JStr ''#dc2626''),
                (''label'', JStr ''cos(x)''), (''vector'', JUndefined), (''range'', JUndefined)]]
   \<and> LEGEND_COLORS ! (1 mod 7) = ''#dc2626''
   \<and> length LEGEND_COLORS = 7"
proof -
  have h: "\<forall>item \<in> set [JObj [(''fn'', JStr ''sin(x)''), (''color'', JStr ''#000'')],
                          JObj [(''fn'', JStr ''cos(x)'')]]. \<not> nullish item"
    by simp
  have e: "map_items [JObj [(''fn'', JStr ''sin(x)''), (''color'', JStr ''#000'')],
              JObj [(''fn'', JStr ''cos(x)'')]] 0 =
     Inr [JObj [(''fn'', JStr ''sin(x)''), (''color'', JStr ''#000''),
                (''fnType'', JStr ''linear''), (''graphType'', JStr ''polyline''),
                (''label'', JStr ''sin(x)''), (''vector'', JUndefined), (''range'', JUndefined)],
          JObj [(''fn'', JStr ''cos(x)''), (''fnType'', JStr ''linear''),
                (''graphType'', JStr ''polyline''), (''color'', JStr ''#dc2626''),
                (''label'', JStr ''cos(x)''), (''vector'', JUndefined), (''range'', JUndefined)]]"
    by (simp add: processItem_def spread_with_def js_or_def LEGEND_COLORS_def)
  have p: "LEGEND_COLORS ! (1 mod 7) = ''#dc2626''"
    by (simp add: LEGEND_COLORS_def)
  from color_from_palette_by_index [OF h] e p show ?thesis
    by simp
qed

subsection \<open>C7: the legacy shorthand\<close>



subsection \<open>C8: no draw without a size\<close>




subsection \<open>C9: colour and label are never missing\<close>

text \<open>
  Claim C9 says that every processed series has a non-empty colour and a non-empty
  label, whatever the input. The processor writes \<^verbatim>\<open>item.color || ...\<close> and
  \<^verbatim>\<open>item.label || item.fn || ...\<close>, which keep any truthy value: the entry
  \<^verbatim>\<open>{"label":[],"color":true}\<close> is processed with the label \<^verbatim>\<open>[]\<close> and the colour
  \<^verbatim>\<open>true\<close>, neither of them a non-empty string.
\<close>

theorem color_and_label_kept_counterexample:
  "map_items [JObj [(''label'', JArr []), (''color'', JBool True)]] 0 =
     Inr [JObj [(''label'', JArr []), (''color'', JBool True), (''fnType'', JStr ''linear''),
                (''graphType'', JStr ''polyline''), (''vector'', JUndefined),
                (''range'', JUndefined)]]
   \<and> \<not> nonempty_string (JArr [])
   \<and> \<not> nonempty_string (JBool True)"
  by (simp add: processItem_def spread_with_def js_or_def nonempty_string_def)

text \<open>
  Claim C9, amended: every list of entries without a \<^verbatim>\<open>null\<close> is processed, to a
  list of the same length, and at every index the processed colour is the entry's
  colour when that is truthy and the palette's entry for the index otherwise, and the
  processed label is the entry's label when truthy, else its \<^verbatim>\<open>fn\<close> when truthy, else
  \<^verbatim>\<open>Function\<close> followed by the index plus one; an empty string is falsy and so
  replaced. Both are therefore truthy, and they are non-empty strings whenever the
  entry's \<^verbatim>\<open>color\<close>, \<^verbatim>\<open>label\<close> and \<^verbatim>\<open>fn\<close> hold strings or are missing; a truthy
  value that is not a string is kept as it is.
\<close>

theorem color_and_label_truthy:
  assumes "\<forall>item \<in> set items. \<not> nullish item"
  shows "\<exists>outs. map_items items 0 = Inr outs \<and> length outs = length items
       \<and> (\<forall>i < length items.
            get_prop (outs ! i) ''color'' =
              (if truthy (get_prop (items ! i) ''color'') then get_prop (items ! i) ''color''
               else JStr (LEGEND_COLORS ! (i mod 7)))
          \<and> get_prop (outs ! i) ''label'' =
              (if truthy (get_prop (items ! i) ''label'') then get_prop (items ! i) ''label''
               else if truthy (get_prop (items ! i) ''fn'') then get_prop (items ! i) ''fn''
               else JStr (''Function '' @ string_of_nat (i + 1)))
          \<and> truthy (get_prop (outs ! i) ''color'')
          \<and> truthy (get_prop (outs ! i) ''label'')
          \<and> (string_or_missing (get_prop (items ! i) ''color'')
               \<longrightarrow> nonempty_string (get_prop (outs ! i) ''color''))
          \<and> (string_or_missing (get_prop (items ! i) ''label'')
               \<and> string_or_missing (get_prop (items ! i) ''fn'')
               \<longrightarrow> nonempty_string (get_prop (outs ! i) ''label'')))"
proof -
  from assms obtain outs where outs: "map_items items 0 = Inr outs"
    using map_items_Inr_iff [of items 0] by blast
  have str: "nonempty_string v" if "string_or_missing v" "truthy v" for v
    using that by (cases v) (auto simp add: string_or_missing_def nonempty_string_def)
  have "get_prop (outs ! i) ''color'' =
              (if truthy (get_prop (items ! i) ''color'') then get_prop (items ! i) ''color''
               else JStr (LEGEND_COLORS ! (i mod 7)))
          \<and> get_prop (outs ! i) ''label'' =
              (if truthy (get_prop (items ! i) ''label'') then get_prop (items ! i) ''label''
               else if truthy (get_prop (items ! i) ''fn'') then get_prop (items ! i) ''fn''
               else JStr (''Function '' @ string_of_nat (i + 1)))
          \<and> truthy (get_prop (outs ! i) ''color'')
          \<and> truthy (get_prop (outs ! i) ''label'')
          \<and> (string_or_missing (get_prop (items ! i) ''color'')
               \<longrightarrow> nonempty_string (get_prop (outs ! i) ''color''))
          \<and> (string_or_missing (get_prop (items ! i) ''label'')
               \<and> string_or_missing (get_prop (items ! i) ''fn'')
               \<longrightarrow> nonempty_string (get_prop (outs ! i) ''label''))"
    if i: "i < length items" for i
  proof -
    from map_items_nth [OF outs i] have out: "processItem (items ! i) i = Inr (outs ! i)"
      by simp
    have pal: "LEGEND_COLORS ! (i mod 7) \<noteq> []"
      using LEGEND_COLORS_nonempty [of "i mod 7"] by simp
    have c_eq: "get_prop (outs ! i) ''color'' =
              (if truthy (get_prop (items ! i) ''color'') then get_prop (items ! i) ''color''
               else JStr (LEGEND_COLORS ! (i mod 7)))"
      using processItem_color [OF out] by (simp add: js_or_def length_LEGEND_COLORS)
    have l_eq: "get_prop (outs ! i) ''label'' =
           (if truthy (get_prop (items ! i) ''label'') then get_prop (items ! i) ''label''
            else if truthy (get_prop (items ! i) ''fn'') then get_prop (items ! i) ''fn''
            else JStr (''Function '' @ string_of_nat (i + 1)))"
      using processItem_label [OF out] by (simp add: js_or_def)
    have c: "truthy (get_prop (outs ! i) ''color'')"
      using c_eq pal by simp
    have l: "truthy (get_prop (outs ! i) ''label'')"
      using l_eq by simp
    have c_str: "nonempty_string (get_prop (outs ! i) ''color'')"
      if "string_or_missing (get_prop (items ! i) ''color'')"
      using c_eq pal str [OF that]
      by (auto simp add: nonempty_string_def)
    have l_str: "nonempty_string (get_prop (outs ! i) ''label'')"
      if "string_or_missing (get_prop (items ! i) ''label'')"
        "string_or_missing (get_prop (items ! i) ''fn'')"
      using l_eq str [OF that(1)] str [OF that(2)]
      by (auto simp add: nonempty_string_def)
    from c_eq l_eq c l c_str l_str show ?thesis
      by blast
  qed
  with outs map_items_length [OF outs] show ?thesis
    by blast
qed

theorem color_and_label_truthy_witness:
  "map_items [JObj [(''fn'', JStr ''''), (''color'', JStr ''''), (''label'', JStr '''')]] 0 =
     Inr [JObj [(''fn'', JStr ''''), (''color'', JStr ''#2563eb''), (''label'', JStr ''Function 1''),
                (''fnType'', JStr ''linear''), (''graphType'', JStr ''polyline''),
                (''vector'', JUndefined), (''range'', JUndefined)]]
   \<and> nonempty_string (JStr ''#2563eb'') \<and> nonempty_string (JStr ''Function 1'')"
proof -
  have h: "\<forall>item \<in> set [JObj [(''fn'', JStr ''''), (''color'', JStr ''''), (''label'', JStr '''')]].
             \<not> nullish item"
    by simp
  have e: "map_items [JObj [(''fn'', JStr ''''), (''color'', JStr ''''), (''label'', JStr '''')]] 0 =
     Inr [JObj [(''fn'', JStr ''''), (''color'', JStr ''#2563eb''), (''label'', JStr ''Function 1''),
                (''fnType'', JStr ''linear''), (''graphType'', JStr ''polyline''),
                (''vector'', JUndefined), (''range'', JUndefined)]]"
    by (simp add: processItem_def spread_with_def js_or_def LEGEND_COLORS_def
        string_of_nat.simps digit_char_def)
  have n: "nonempty_string (JStr ''#2563eb'')" "nonempty_string (JStr ''Function 1'')"
    by (simp_all add: nonempty_string_def)
  from color_and_label_truthy [OF h] e n show ?thesis
    by blast
qed

subsection \<open>C10: the text \<^verbatim>\<open>null\<close>\<close>

text \<open>
  Claim C10: when the text \<^verbatim>\<open>null\<close> decodes to the value \<^verbatim>\<open>null\<close>, normalisation
  builds no legacy series: the read of \<^verbatim>\<open>parsed.data\<close> throws, the \<^verbatim>\<open>catch\<close> of
  \<^verbatim>\<open>drawGraph\<close> stores the message of that error, which is shown, and the pass ends
  without a call to the engine and without a change of the legend state or of the plot
  surface.
\<close>

theorem null_input_fails_render:
  assumes "JSON_parse ''null'' = Some JNull"
    and "s' = drawGraph JSON_parse functionPlot ''null'' d s"
  shows "normalize JNull = Inl (cannot_read JNull ''data'')
       \<and> (\<exists>msg. msg \<noteq> [] \<and> cannot_read JNull ''data'' = JsError msg \<and> error s' = Some msg
                \<and> errorShown s' = Some msg)
       \<and> engineCalls s' = engineCalls s
       \<and> legendItems s' = legendItems s
       \<and> rootEl s' = rootEl s
       \<and> legendShown s' = []"
proof -
  define msg where "msg = ''Cannot read properties of null (reading ''
             @ [CHR 0x27] @ ''data'' @ [CHR 0x27] @ '')''"
  have m: "cannot_read JNull ''data'' = JsError msg" and ne: "msg \<noteq> []"
    by (simp_all add: cannot_read_def msg_def)
  have n: "normalize JNull = Inl (JsError msg)"
    by (simp add: normalize_def m)
  have "drawGraph JSON_parse functionPlot ''null'' d s = s\<lparr>error := Some msg\<rparr>"
    using assms(1) n by (rule drawGraph_normalize_failure)
  with assms(2) have s': "s' = s\<lparr>error := Some msg\<rparr>"
    by simp
  from ne have "errorShown s' = Some msg" "legendShown s' = []"
    by (simp_all add: s' errorShown_def legendShown_def)
  with m n ne s' show ?thesis
    by simp
qed

theorem null_input_fails_render_witness:
  "[''null'' \<mapsto> JNull] ''null'' = Some JNull
   \<and> error (drawGraph [''null'' \<mapsto> JNull] Map.empty ''null'' (300, 200) (mount ''null''))
       = Some (''Cannot read properties of null (reading '' @ [CHR 0x27] @ ''data''
               @ [CHR 0x27] @ '')'')
   \<and> engineCalls (drawGraph [''null'' \<mapsto> JNull] Map.empty ''null'' (300, 200) (mount ''null''))
       = []
   \<and> legendItems (drawGraph [''null'' \<mapsto> JNull] Map.empty ''null'' (300, 200) (mount ''null''))
       = []"
proof -
  have h: "[''null'' \<mapsto> JNull] ''null'' = Some JNull"
    by simp
  from null_input_fails_render
    [where JSON_parse = "[''null'' \<mapsto> JNull]" and functionPlot = Map.empty
       and d = "(300, 200)" and s = "mount ''null''", OF h refl] h
  show ?thesis
    by (simp add: mount_def drawEffect_def cannot_read_def)
qed

end
